theory Spec2Isabelle
  imports Complex_Main
begin

section \<open>Data model of NetworkMap.tsx\<close>

text \<open>
  The component \<^verbatim>\<open>NetworkMap\<close> (src/components/network/NetworkMap.tsx) turns the
  current device list into a graph description inside a \<^verbatim>\<open>useMemo\<close> callback
  (\<^verbatim>\<open>graphData\<close>, lines 114-170) and colours nodes with \<^verbatim>\<open>getNodeColor\<close>
  (lines 172-186).

  The type \<^verbatim>\<open>Device\<close> is imported from \<^verbatim>\<open>@/types/api\<close>; the code reads the four
  string fields below and no other. Field names carry the name of their interface as a
  prefix, because the three interfaces share the names \<^verbatim>\<open>id\<close>, \<^verbatim>\<open>name\<close>, \<^verbatim>\<open>type\<close>
  and \<^verbatim>\<open>status\<close>.
\<close>

record Device =
  device_id :: string
  device_name :: string
  device_type :: string
  device_status :: string

text \<open>
  A JSX element \<^verbatim>\<open><IconComponent />\<close> is the component it was made from; the
  components themselves live in \<^verbatim>\<open>./IconMapping\<close> and are a type parameter here.
\<close>

datatype 'c Element = Element 'c

record Location =
  lat :: real
  lng :: real

text \<open>
  \<^verbatim>\<open>GraphNode\<close> (lines 19-31). The optional fields \<^verbatim>\<open>x\<close>, \<^verbatim>\<open>y\<close>, \<^verbatim>\<open>fx\<close>, \<^verbatim>\<open>fy\<close>
  are never set by this file and are left out. Coordinates are JavaScript numbers,
  read here as reals.
\<close>

record 'c GraphNode =
  node_id :: string
  node_name :: string
  node_type :: string
  node_status :: string
  node_val :: nat
  node_icon :: "'c Element option"
  node_location :: Location

record GraphLink =
  link_source :: string
  link_target :: string
  link_type :: string
  link_animated :: bool

record 'c GraphData =
  nodes :: "'c GraphNode list"
  links :: "GraphLink list"

text \<open>
  Reading a property of \<^verbatim>\<open>undefined\<close> throws a \<^verbatim>\<open>TypeError\<close>; it is the only
  exception the callback can raise.
\<close>

datatype error = TypeError

section \<open>JavaScript primitives\<close>

text \<open>
  \<^verbatim>\<open>String.prototype.toLowerCase\<close>. A string is a list of characters, each read as one
  of the code units U+0000 .. U+00FF. In that range the letters with a lower-case
  partner are A-Z (65-90) and the Latin-1 capitals (192-222 without the multiplication
  sign 215); the partner is 32 above.
\<close>

definition lowerChar :: "char \<Rightarrow> char" where
  "lowerChar c =
     (let n = (of_char c :: nat)
      in if (65 \<le> n \<and> n \<le> 90) \<or> (192 \<le> n \<and> n \<le> 222 \<and> n \<noteq> 215)
         then char_of (n + 32) else c)"

definition toLowerCase :: "string \<Rightarrow> string" where
  "toLowerCase s = map lowerChar s"

text \<open>
  An array read \<^verbatim>\<open>xs[i]\<close>: the element, or \<^verbatim>\<open>undefined\<close> (here \<open>None\<close>) when
  \<open>i\<close> is not an index of the array.
\<close>

fun element_at :: "'a list \<Rightarrow> nat \<Rightarrow> 'a option" where
  "element_at [] i = None"
| "element_at (x # xs) 0 = Some x"
| "element_at (x # xs) (Suc i) = element_at xs i"

section \<open>Icon lookup and node projection\<close>

text \<open>
  \<^verbatim>\<open>getDeviceIcon\<close> (lines 109-112). The table \<^verbatim>\<open>iconDictionary\<close> of
  \<^verbatim>\<open>./IconMapping\<close> is a parameter: a partial map from keys to components.
\<close>

definition getDeviceIcon :: "(string \<rightharpoonup> 'c) \<Rightarrow> string \<Rightarrow> 'c Element option" where
  "getDeviceIcon iconDictionary type =
     (case iconDictionary (toLowerCase type) of
        None \<Rightarrow> None
      | Some IconComponent \<Rightarrow> Some (Element IconComponent))"

text \<open>
  \<^verbatim>\<open>devices.map(device => ({...}))\<close> (lines 115-126). Every node draws two numbers
  from \<^verbatim>\<open>Math.random()\<close>, the latitude first. The generator is the stream \<open>rnd\<close> of
  its successive results and \<open>k\<close> counts the draws made so far.
\<close>

fun projectNodes ::
  "(string \<rightharpoonup> 'c) \<Rightarrow> (nat \<Rightarrow> real) \<Rightarrow> nat \<Rightarrow> Device list \<Rightarrow> 'c GraphNode list" where
  "projectNodes iconDictionary rnd k [] = []"
| "projectNodes iconDictionary rnd k (device # rest) =
     \<lparr>node_id = device_id device,
      node_name = device_name device,
      node_type = device_type device,
      node_status = device_status device,
      node_val = 1,
      node_icon = getDeviceIcon iconDictionary (device_type device),
      node_location = \<lparr>lat = rnd k * 180 - 90, lng = rnd (k + 1) * 360 - 180\<rparr>\<rparr>
     # projectNodes iconDictionary rnd (k + 2) rest"

section \<open>The three link loops\<close>

text \<open>
  Each \<^verbatim>\<open>forEach\<close> pushes onto the one array \<^verbatim>\<open>links\<close>; the loops below take the
  array as it is before the loop (\<open>acc\<close>) and return it as it is after.

  Hub loop (lines 132-140): \<^verbatim>\<open>devices.slice(1).forEach(...)\<close> with
  \<^verbatim>\<open>gateway = devices[0]\<close>. Reading \<^verbatim>\<open>gateway.id\<close> throws when the gateway is
  \<^verbatim>\<open>undefined\<close>.
\<close>

fun hubEdges :: "Device option \<Rightarrow> Device list \<Rightarrow> GraphLink list \<Rightarrow> error + GraphLink list" where
  "hubEdges gateway [] acc = Inr acc"
| "hubEdges gateway (device # rest) acc =
     (case gateway of
        None \<Rightarrow> Inl TypeError
      | Some gw \<Rightarrow>
          hubEdges gateway rest
            (acc @ [\<lparr>link_source = device_id gw,
                     link_target = device_id device,
                     link_type = ''straight'',
                     link_animated = (device_status device = ''online'')\<rparr>]))"

text \<open>
  Switch loop (lines 144-153): \<^verbatim>\<open>switches.forEach((sw, idx) => ...)\<close>. The third
  argument is the part of the array still to visit, \<open>idx\<close> the index of its head. The
  test \<^verbatim>\<open>idx < switches.length - 1\<close> is on numbers, so the right-hand side is \<open>-1\<close>
  for the empty array. Reading \<^verbatim>\<open>switches[idx + 1].id\<close> throws when that element is
  \<^verbatim>\<open>undefined\<close>.
\<close>

fun switchChain ::
  "Device list \<Rightarrow> nat \<Rightarrow> Device list \<Rightarrow> GraphLink list \<Rightarrow> error + GraphLink list" where
  "switchChain switches idx [] acc = Inr acc"
| "switchChain switches idx (sw # rest) acc =
     (if int idx < int (length switches) - 1 then
        (case element_at switches (idx + 1) of
           None \<Rightarrow> Inl TypeError
         | Some nxt \<Rightarrow>
             switchChain switches (idx + 1) rest
               (acc @ [\<lparr>link_source = device_id sw,
                        link_target = device_id nxt,
                        link_type = ''straight'',
                        link_animated =
                          (device_status sw = ''online'' \<and> device_status nxt = ''online'')\<rparr>]))
      else switchChain switches (idx + 1) rest acc)"

text \<open>
  \<^verbatim>\<open>switches[idx % switches.length]\<close> (line 158). For the empty array the remainder
  \<^verbatim>\<open>idx % 0\<close> is \<^verbatim>\<open>NaN\<close>, and \<^verbatim>\<open>switches[NaN]\<close> is \<^verbatim>\<open>undefined\<close>.
\<close>

definition targetSwitchOf :: "Device list \<Rightarrow> nat \<Rightarrow> Device option" where
  "targetSwitchOf switches idx =
     (if length switches = 0 then None
      else element_at switches (idx mod length switches))"

text \<open>
  Server loop (lines 157-167): \<^verbatim>\<open>servers.forEach((server, idx) => ...)\<close>. The test
  \<^verbatim>\<open>if (targetSwitch)\<close> is false for \<^verbatim>\<open>undefined\<close> and true for every device
  object. No expression of this loop can throw.
\<close>

fun serverAttach ::
  "Device list \<Rightarrow> nat \<Rightarrow> Device list \<Rightarrow> GraphLink list \<Rightarrow> GraphLink list" where
  "serverAttach switches idx [] acc = acc"
| "serverAttach switches idx (server # rest) acc =
     (case targetSwitchOf switches idx of
        None \<Rightarrow> serverAttach switches (idx + 1) rest acc
      | Some targetSwitch \<Rightarrow>
          serverAttach switches (idx + 1) rest
            (acc @ [\<lparr>link_source = device_id server,
                     link_target = device_id targetSwitch,
                     link_type = ''straight'',
                     link_animated =
                       (device_status server = ''online''
                        \<and> device_status targetSwitch = ''online'')\<rparr>]))"

section \<open>The synthesizer\<close>

text \<open>
  The \<^verbatim>\<open>useMemo\<close> callback (lines 114-170), as a function of the icon table, the
  random stream and the device list. An exception leaves the callback at once.
\<close>

definition graphData ::
  "(string \<rightharpoonup> 'c) \<Rightarrow> (nat \<Rightarrow> real) \<Rightarrow> Device list \<Rightarrow> error + 'c GraphData" where
  "graphData iconDictionary rnd devices =
     (let nodes0 = projectNodes iconDictionary rnd 0 devices;
          gateway = element_at devices 0
      in case hubEdges gateway (drop 1 devices) [] of
           Inl e \<Rightarrow> Inl e
         | Inr links1 \<Rightarrow>
             (let switches = filter (\<lambda>d. device_type d = ''switch'') devices
              in case switchChain switches 0 switches links1 of
                   Inl e \<Rightarrow> Inl e
                 | Inr links2 \<Rightarrow>
                     (let servers = filter (\<lambda>d. device_type d = ''server'') devices
                      in Inr \<lparr>nodes = nodes0,
                              links = serverAttach switches 0 servers links2\<rparr>)))"

section \<open>Node colour\<close>

text \<open>\<^verbatim>\<open>getNodeColor\<close> (lines 172-186).\<close>

definition getNodeColor :: "'c GraphNode \<Rightarrow> string" where
  "getNodeColor node =
     (if node_status node = ''offline'' then ''#ef4444''
      else (let t = toLowerCase (node_type node)
            in if t = ''router'' then ''#3b82f6''
               else if t = ''switch'' then ''#10b981''
               else if t = ''server'' then ''#8b5cf6''
               else if t = ''access-point'' then ''#3b82f6''
               else ''#6b7280''))"

section \<open>Fixtures and shorthands\<close>

text \<open>
  The device list of the worked example in section 8 of the specification (the names
  are added; the example gives none), a list with a server and no switch, and a
  stand-in for the icon table.
\<close>

definition example_devices :: "Device list" where
  "example_devices =
     [\<lparr>device_id = ''gw'', device_name = ''Gateway'',
       device_type = ''router'', device_status = ''online''\<rparr>,
      \<lparr>device_id = ''s1'', device_name = ''Switch 1'',
       device_type = ''switch'', device_status = ''online''\<rparr>,
      \<lparr>device_id = ''s2'', device_name = ''Switch 2'',
       device_type = ''switch'', device_status = ''offline''\<rparr>,
      \<lparr>device_id = ''srv1'', device_name = ''Server 1'',
       device_type = ''server'', device_status = ''online''\<rparr>]"

definition example_no_switch :: "Device list" where
  "example_no_switch =
     [\<lparr>device_id = ''gw'', device_name = ''Gateway'',
       device_type = ''router'', device_status = ''online''\<rparr>,
      \<lparr>device_id = ''srv1'', device_name = ''Server 1'',
       device_type = ''server'', device_status = ''online''\<rparr>]"

definition example_icons :: "string \<rightharpoonup> string" where
  "example_icons =
     [''router'' \<mapsto> ''RouterIcon'', ''switch'' \<mapsto> ''SwitchIcon'', ''server'' \<mapsto> ''ServerIcon'']"

definition example_node :: "string \<Rightarrow> string \<Rightarrow> string GraphNode" where
  "example_node type status =
     \<lparr>node_id = ''n1'', node_name = ''Node 1'', node_type = type, node_status = status,
      node_val = 1, node_icon = None, node_location = \<lparr>lat = 0, lng = 0\<rparr>\<rparr>"

text \<open>Shorthands for the object literals of the three loops and for the two filters.\<close>

abbreviation (input) hub_link :: "Device \<Rightarrow> Device \<Rightarrow> GraphLink" where
  "hub_link gw device \<equiv>
     \<lparr>link_source = device_id gw, link_target = device_id device,
      link_type = ''straight'', link_animated = (device_status device = ''online'')\<rparr>"

abbreviation (input) pair_link :: "Device \<Rightarrow> Device \<Rightarrow> GraphLink" where
  "pair_link a b \<equiv>
     \<lparr>link_source = device_id a, link_target = device_id b,
      link_type = ''straight'',
      link_animated = (device_status a = ''online'' \<and> device_status b = ''online'')\<rparr>"

abbreviation (input) switchesOf :: "Device list \<Rightarrow> Device list" where
  "switchesOf devices \<equiv> filter (\<lambda>d. device_type d = ''switch'') devices"

abbreviation (input) serversOf :: "Device list \<Rightarrow> Device list" where
  "serversOf devices \<equiv> filter (\<lambda>d. device_type d = ''server'') devices"

section \<open>What each loop computes\<close>

lemma element_at_nth:
  "element_at xs i = (if i < length xs then Some (xs ! i) else None)"
  by (induction xs i rule: element_at.induct) simp_all

lemma hubEdges_Some:
  "hubEdges (Some gw) ds acc = Inr (acc @ map (hub_link gw) ds)"
  by (induction ds arbitrary: acc) simp_all

lemma hubEdges_call:
  "hubEdges (element_at devices 0) (drop 1 devices) acc
     = Inr (acc @ map (hub_link (hd devices)) (tl devices))"
  by (cases devices) (simp_all add: hubEdges_Some drop_Suc)

text \<open>
  The switch loop, started in the middle of the array: \<open>pre\<close> has been visited,
  \<open>rest\<close> is still to come.
\<close>

lemma switchChain_split:
  "switchChain (pre @ rest) (length pre) rest acc =
     Inr (acc @ map (\<lambda>(sw, nxt). pair_link sw nxt) (zip rest (tl rest)))"
proof (induction rest arbitrary: pre acc)
  case Nil
  show ?case by simp
next
  case (Cons sw rest)
  have step: "switchChain (pre @ sw # rest) (length pre + 1) rest acc' =
     Inr (acc' @ map (\<lambda>(sw, nxt). pair_link sw nxt) (zip rest (tl rest)))" for acc'
    using Cons.IH [of "pre @ [sw]"] by simp
  show ?case
  proof (cases rest)
    case Nil
    then show ?thesis by simp
  next
    case (Cons nxt rest')
    then have "element_at (pre @ sw # rest) (length pre + 1) = Some nxt"
      by (simp add: element_at_nth nth_append)
    moreover have "int (length pre) < int (length (pre @ sw # rest)) - 1"
      using Cons by simp
    ultimately show ?thesis
      using step Cons by simp
  qed
qed

lemma zip_tl_index:
  "map (\<lambda>(a, b). f a b) (zip xs (tl xs))
     = map (\<lambda>i. f (xs ! i) (xs ! (i + 1))) [0..<length xs - 1]"
  by (rule nth_equalityI) (simp_all add: nth_tl)

lemma switchChain_index:
  "switchChain sws 0 sws acc =
     Inr (acc @ map (\<lambda>i. pair_link (sws ! i) (sws ! (i + 1))) [0..<length sws - 1])"
proof -
  have "map (\<lambda>(sw, nxt). pair_link sw nxt) (zip sws (tl sws))
        = map (\<lambda>i. pair_link (sws ! i) (sws ! (i + 1))) [0..<length sws - 1]"
    by (rule zip_tl_index)
  then show ?thesis
    using switchChain_split [of "[]" sws acc] by simp
qed

lemma targetSwitchOf_eq:
  "targetSwitchOf sws idx = (if sws = [] then None else Some (sws ! (idx mod length sws)))"
  by (simp add: targetSwitchOf_def element_at_nth)

lemma serverAttach_no_switch:
  "serverAttach [] idx srvs acc = acc"
  by (induction srvs arbitrary: idx) (simp_all add: targetSwitchOf_eq)

lemma serverAttach_round_robin:
  "sws \<noteq> [] \<Longrightarrow>
   serverAttach sws idx srvs acc =
     acc @ map (\<lambda>(i, server). pair_link server (sws ! (i mod length sws))) (enumerate idx srvs)"
  by (induction srvs arbitrary: idx acc) (simp_all add: targetSwitchOf_eq)

lemma enumerate_index:
  "map (\<lambda>(i, x). f i x) (enumerate 0 xs) = map (\<lambda>i. f i (xs ! i)) [0..<length xs]"
  by (rule nth_equalityI) (simp_all add: nth_enumerate_eq)

lemma serverAttach_index:
  "serverAttach sws 0 srvs acc =
     acc @ (if sws = [] then []
            else map (\<lambda>i. pair_link (srvs ! i) (sws ! (i mod length sws))) [0..<length srvs])"
proof (cases "sws = []")
  case True
  then show ?thesis by (simp add: serverAttach_no_switch)
next
  case False
  have "map (\<lambda>(i, server). pair_link server (sws ! (i mod length sws))) (enumerate 0 srvs)
        = map (\<lambda>i. pair_link (srvs ! i) (sws ! (i mod length sws))) [0..<length srvs]"
    by (rule enumerate_index)
  with False show ?thesis
    by (simp add: serverAttach_round_robin)
qed

section \<open>The shape of the output\<close>

lemma graphData_shape:
  "graphData iconDictionary rnd devices =
     Inr \<lparr>nodes = projectNodes iconDictionary rnd 0 devices,
          links = map (hub_link (hd devices)) (tl devices)
                  @ map (\<lambda>i. pair_link (switchesOf devices ! i) (switchesOf devices ! (i + 1)))
                        [0..<length (switchesOf devices) - 1]
                  @ (if switchesOf devices = [] then []
                     else map (\<lambda>i. pair_link (serversOf devices ! i)
                                     (switchesOf devices ! (i mod length (switchesOf devices))))
                              [0..<length (serversOf devices)])\<rparr>"
  unfolding graphData_def Let_def
  by (simp only: hubEdges_call switchChain_index serverAttach_index sum.case append_Nil append_assoc)

lemma graphData_after_hub:
  "\<exists>g. graphData iconDictionary rnd devices = Inr g
       \<and> drop (length devices - 1) (links g)
           = map (\<lambda>i. pair_link (switchesOf devices ! i) (switchesOf devices ! (i + 1)))
                 [0..<length (switchesOf devices) - 1]
             @ (if switchesOf devices = [] then []
                else map (\<lambda>i. pair_link (serversOf devices ! i)
                                (switchesOf devices ! (i mod length (switchesOf devices))))
                         [0..<length (serversOf devices)])"
  by (simp add: graphData_shape)

lemma projectNodes_fields:
  "map (\<lambda>n. (node_id n, node_name n, node_type n, node_status n, node_val n, node_icon n))
       (projectNodes iconDictionary rnd k devices)
   = map (\<lambda>d. (device_id d, device_name d, device_type d, device_status d, 1,
                getDeviceIcon iconDictionary (device_type d))) devices"
  by (induction devices arbitrary: k) simp_all

lemma projectNodes_core:
  "map (\<lambda>n. (node_id n, node_name n, node_type n, node_status n))
       (projectNodes iconDictionary rnd k devices)
   = map (\<lambda>d. (device_id d, device_name d, device_type d, device_status d)) devices"
  by (induction devices arbitrary: k) simp_all

lemma projectNodes_ids:
  "map node_id (projectNodes iconDictionary rnd k devices) = map device_id devices"
  by (induction devices arbitrary: k) simp_all

lemma projectNodes_length:
  "length (projectNodes iconDictionary rnd k devices) = length devices"
  by (induction devices arbitrary: k) simp_all

lemma toLowerCase_literals:
  "toLowerCase ''switch'' = ''switch''"
  "toLowerCase ''server'' = ''server''"
  "toLowerCase ''Switch'' = ''switch''"
  "toLowerCase ''Router'' = ''router''"
  "toLowerCase ''printer'' = ''printer''"
  by code_simp+

section \<open>The empty device list\<close>

text \<open>
  C1. For the empty device list the synthesizer does not throw: it returns the graph
  with no nodes and no links. The gateway is \<^verbatim>\<open>undefined\<close> there, but the hub loop
  runs over \<^verbatim>\<open>[].slice(1)\<close>, which is empty, so \<^verbatim>\<open>gateway.id\<close> is never read.
\<close>

theorem graphData_empty:
  "graphData iconDictionary rnd [] = Inr \<lparr>nodes = [], links = []\<rparr>"
  by (simp add: graphData_def)

theorem graphData_empty_witness:
  "graphData example_icons (\<lambda>_. 0) [] = Inr \<lparr>nodes = [], links = []\<rparr>"
  using graphData_empty [of example_icons "\<lambda>_. 0"] by simp

section \<open>Hub links\<close>

text \<open>
  C2. For a non-empty device list of length \<open>n\<close> the hub loop emits exactly \<open>n - 1\<close>
  links, one per device after the first and in input order: the source is the id of
  the first device, the target the id of that device, and the link is animated exactly
  when that device's status is \<^verbatim>\<open>"online"\<close>. The loop runs first, on the empty array,
  so these are the first \<open>n - 1\<close> links of the output.
\<close>

theorem hub_links:
  assumes "devices \<noteq> []"
  shows "let H = map (\<lambda>device. \<lparr>link_source = device_id (devices ! 0),
                                 link_target = device_id device,
                                 link_type = ''straight'',
                                 link_animated = (device_status device = ''online'')\<rparr>)
                     (drop 1 devices)
         in length H = length devices - 1
            \<and> hubEdges (element_at devices 0) (drop 1 devices) [] = Inr H
            \<and> (\<exists>g. graphData iconDictionary rnd devices = Inr g
                    \<and> take (length devices - 1) (links g) = H)"
proof -
  from assms have "hd devices = devices ! 0" and "tl devices = drop 1 devices"
    by (simp_all add: hd_conv_nth drop_Suc)
  then show ?thesis
    using hubEdges_call [of devices "[]"] graphData_shape [of iconDictionary rnd devices]
    by (simp add: Let_def)
qed

theorem hub_links_witness:
  "example_devices \<noteq> []
   \<and> (\<exists>g. graphData example_icons (\<lambda>_. 0) example_devices = Inr g
          \<and> take 3 (links g) =
              [\<lparr>link_source = ''gw'', link_target = ''s1'',
                link_type = ''straight'', link_animated = True\<rparr>,
               \<lparr>link_source = ''gw'', link_target = ''s2'',
                link_type = ''straight'', link_animated = False\<rparr>,
               \<lparr>link_source = ''gw'', link_target = ''srv1'',
                link_type = ''straight'', link_animated = True\<rparr>])"
  using hub_links [of example_devices example_icons "\<lambda>_. 0"]
  by (simp add: example_devices_def Let_def numeral_3_eq_3)

section \<open>Server attachment\<close>

text \<open>
  C3. Let \<open>switches\<close> and \<open>servers\<close> be the devices of type \<^verbatim>\<open>"switch"\<close> and
  \<^verbatim>\<open>"server"\<close>, in input order, \<open>k\<close> and \<open>m\<close> their numbers, and \<open>A\<close> the links the
  server loop emits. The synthesizer returns a graph, and \<open>A\<close> is what follows the hub
  and chain links in its output. If \<open>k \<ge> 1\<close>, \<open>A\<close> has exactly \<open>m\<close> links, the
  \<open>i\<close>-th from server \<open>i\<close> to \<open>switches[i mod k]\<close>, animated exactly when both are
  online. If \<open>k = 0\<close>, \<open>A\<close> is empty.
\<close>

theorem server_attachment_links:
  "let switches = filter (\<lambda>d. device_type d = ''switch'') devices;
       servers = filter (\<lambda>d. device_type d = ''server'') devices;
       k = length switches;
       m = length servers;
       A = serverAttach switches 0 servers []
   in (\<exists>g. graphData iconDictionary rnd devices = Inr g
           \<and> drop (length devices - 1 + (k - 1)) (links g) = A)
      \<and> (1 \<le> k \<longrightarrow>
            length A = m
            \<and> A = map (\<lambda>i. \<lparr>link_source = device_id (servers ! i),
                             link_target = device_id (switches ! (i mod k)),
                             link_type = ''straight'',
                             link_animated = (device_status (servers ! i) = ''online''
                                              \<and> device_status (switches ! (i mod k)) = ''online'')\<rparr>)
                      [0..<m])
      \<and> (k = 0 \<longrightarrow> A = [])"
  using serverAttach_index [of "switchesOf devices" "serversOf devices" "[]"]
  by (auto simp add: Let_def graphData_shape)

theorem server_attachment_links_witness:
  "1 \<le> length (filter (\<lambda>d. device_type d = ''switch'') example_devices)
   \<and> (\<exists>g. graphData example_icons (\<lambda>_. 0) example_devices = Inr g
          \<and> drop 4 (links g) =
              [\<lparr>link_source = ''srv1'', link_target = ''s1'',
                link_type = ''straight'', link_animated = True\<rparr>])
   \<and> length (filter (\<lambda>d. device_type d = ''switch'') example_no_switch) = 0
   \<and> (\<exists>g. graphData example_icons (\<lambda>_. 0) example_no_switch = Inr g
          \<and> drop 1 (links g) = [])"
  using server_attachment_links [of example_devices example_icons "\<lambda>_. 0"]
    server_attachment_links [of example_no_switch example_icons "\<lambda>_. 0"]
  by (simp add: example_devices_def example_no_switch_def graphData_def Let_def
      targetSwitchOf_def)

section \<open>Node projection\<close>

text \<open>
  C4. For every device list the synthesizer returns a graph whose node list is as long
  as the device list and whose node ids are the device ids, in input order.
\<close>

theorem node_ids:
  "\<exists>g. graphData iconDictionary rnd devices = Inr g
       \<and> length (nodes g) = length devices
       \<and> map node_id (nodes g) = map device_id devices"
  by (simp add: graphData_shape projectNodes_ids projectNodes_length)

theorem node_ids_witness:
  "\<exists>g. graphData example_icons (\<lambda>_. 0) example_devices = Inr g
       \<and> length (nodes g) = 4
       \<and> map node_id (nodes g) = [''gw'', ''s1'', ''s2'', ''srv1'']"
  using node_ids [of example_icons "\<lambda>_. 0" example_devices]
  by (simp add: example_devices_def graphData_def Let_def targetSwitchOf_def)

section \<open>Switch chain\<close>

text \<open>
  C5. Let \<open>switches\<close> be the devices of type \<^verbatim>\<open>"switch"\<close>, in input order, and \<open>S\<close>
  the list with one link for each adjacent pair \<open>(switches[i], switches[i+1])\<close>,
  animated exactly when both are online. \<open>S\<close> has \<open>max(0, s - 1)\<close> links for \<open>s\<close>
  switches, the switch loop emits exactly \<open>S\<close>, and \<open>S\<close> follows the hub links in the
  output.
\<close>

theorem switch_chain_links:
  "let switches = filter (\<lambda>d. device_type d = ''switch'') devices;
       S = map (\<lambda>i. \<lparr>link_source = device_id (switches ! i),
                      link_target = device_id (switches ! (i + 1)),
                      link_type = ''straight'',
                      link_animated = (device_status (switches ! i) = ''online''
                                       \<and> device_status (switches ! (i + 1)) = ''online'')\<rparr>)
               [0..<length switches - 1]
   in int (length S) = max 0 (int (length switches) - 1)
      \<and> switchChain switches 0 switches [] = Inr S
      \<and> (\<exists>g. graphData iconDictionary rnd devices = Inr g
              \<and> take (length S) (drop (length devices - 1) (links g)) = S)"
  using switchChain_index [of "switchesOf devices" "[]"]
  by (simp add: Let_def graphData_shape)

theorem switch_chain_links_witness:
  "\<exists>g. graphData example_icons (\<lambda>_. 0) example_devices = Inr g
       \<and> take 1 (drop 3 (links g)) =
           [\<lparr>link_source = ''s1'', link_target = ''s2'',
             link_type = ''straight'', link_animated = False\<rparr>]"
  using switch_chain_links [of example_devices example_icons "\<lambda>_. 0"]
  by (simp add: example_devices_def graphData_def Let_def targetSwitchOf_def)

section \<open>Independence of the random coordinates\<close>

text \<open>
  C6. Two calls on the same device list, whatever \<^verbatim>\<open>Math.random()\<close> returns in each,
  both return a graph; the two graphs have the same nodes up to the location (ids,
  names, types, statuses, weights and icons, in the same order) and the same link
  list.
\<close>

theorem structure_independent_of_coordinates:
  "\<exists>g1 g2. graphData iconDictionary rnd1 devices = Inr g1
         \<and> graphData iconDictionary rnd2 devices = Inr g2
         \<and> map (\<lambda>n. (node_id n, node_name n, node_type n, node_status n, node_val n, node_icon n))
               (nodes g1)
           = map (\<lambda>n. (node_id n, node_name n, node_type n, node_status n, node_val n, node_icon n))
                 (nodes g2)
         \<and> links g1 = links g2"
  by (simp add: graphData_shape projectNodes_fields)

theorem structure_independent_of_coordinates_witness:
  "\<exists>g1 g2. graphData example_icons (\<lambda>_. 0) example_no_switch = Inr g1
         \<and> graphData example_icons (\<lambda>_. 1 / 2) example_no_switch = Inr g2
         \<and> map node_id (nodes g1) = map node_id (nodes g2)
         \<and> map node_location (nodes g1) \<noteq> map node_location (nodes g2)
         \<and> links g1 = links g2"
  using structure_independent_of_coordinates
    [of example_icons "\<lambda>_. 0" example_no_switch "\<lambda>_. 1 / 2"]
  by (simp add: example_no_switch_def graphData_def Let_def targetSwitchOf_def)

section \<open>Referential integrity of links\<close>

text \<open>
  C7. For every non-empty device list the synthesizer returns a graph in which the
  source and the target of every link are ids of nodes of that graph.
\<close>

theorem link_endpoints_are_nodes:
  assumes "devices \<noteq> []"
  shows "\<exists>g. graphData iconDictionary rnd devices = Inr g
           \<and> (\<forall>l \<in> set (links g).
                  link_source l \<in> set (map node_id (nodes g))
                  \<and> link_target l \<in> set (map node_id (nodes g)))"
proof -
  let ?sw = "switchesOf devices" and ?sv = "serversOf devices"
  let ?ids = "set (map device_id devices)"
  have dev: "d \<in> set devices \<Longrightarrow> device_id d \<in> ?ids" for d
    by simp
  have gw: "device_id (hd devices) \<in> ?ids"
    using assms by (intro dev) simp
  have others: "d \<in> set (tl devices) \<Longrightarrow> device_id d \<in> ?ids" for d
    by (intro dev) (rule list.set_sel(2) [OF assms])
  have sw: "i < length ?sw \<Longrightarrow> device_id (?sw ! i) \<in> ?ids" for i
  proof -
    assume "i < length ?sw"
    then have "?sw ! i \<in> set ?sw" by (rule nth_mem)
    then show ?thesis by (intro dev) simp
  qed
  have sv: "i < length ?sv \<Longrightarrow> device_id (?sv ! i) \<in> ?ids" for i
  proof -
    assume "i < length ?sv"
    then have "?sv ! i \<in> set ?sv" by (rule nth_mem)
    then show ?thesis by (intro dev) simp
  qed
  have rr: "?sw \<noteq> [] \<Longrightarrow> device_id (?sw ! (i mod length ?sw)) \<in> ?ids" for i
    by (intro sw) simp
  have hub: "\<forall>l \<in> set (map (hub_link (hd devices)) (tl devices)).
               link_source l \<in> ?ids \<and> link_target l \<in> ?ids"
    using gw others by auto
  have chain: "\<forall>l \<in> set (map (\<lambda>i. pair_link (?sw ! i) (?sw ! (i + 1))) [0..<length ?sw - 1]).
               link_source l \<in> ?ids \<and> link_target l \<in> ?ids"
  proof
    fix l
    assume "l \<in> set (map (\<lambda>i. pair_link (?sw ! i) (?sw ! (i + 1))) [0..<length ?sw - 1])"
    then obtain i where i: "i < length ?sw - 1" and l: "l = pair_link (?sw ! i) (?sw ! (i + 1))"
      by auto
    from i have "i < length ?sw" and "i + 1 < length ?sw" by simp_all
    then have "device_id (?sw ! i) \<in> ?ids" and "device_id (?sw ! (i + 1)) \<in> ?ids"
      using sw by blast+
    with l show "link_source l \<in> ?ids \<and> link_target l \<in> ?ids" by simp
  qed
  have attach: "\<forall>l \<in> set (if ?sw = [] then []
                   else map (\<lambda>i. pair_link (?sv ! i) (?sw ! (i mod length ?sw))) [0..<length ?sv]).
               link_source l \<in> ?ids \<and> link_target l \<in> ?ids"
  proof (cases "?sw = []")
    case True
    then show ?thesis by simp
  next
    case False
    show ?thesis
    proof
      fix l
      assume "l \<in> set (if ?sw = [] then []
                   else map (\<lambda>i. pair_link (?sv ! i) (?sw ! (i mod length ?sw))) [0..<length ?sv])"
      with False obtain i where i: "i < length ?sv"
        and l: "l = pair_link (?sv ! i) (?sw ! (i mod length ?sw))"
        by auto
      from i have "device_id (?sv ! i) \<in> ?ids" by (rule sv)
      moreover from False have "device_id (?sw ! (i mod length ?sw)) \<in> ?ids" by (rule rr)
      ultimately show "link_source l \<in> ?ids \<and> link_target l \<in> ?ids"
        using l by simp
    qed
  qed
  have "\<forall>l \<in> set (map (hub_link (hd devices)) (tl devices)
                   @ map (\<lambda>i. pair_link (?sw ! i) (?sw ! (i + 1))) [0..<length ?sw - 1]
                   @ (if ?sw = [] then []
                      else map (\<lambda>i. pair_link (?sv ! i) (?sw ! (i mod length ?sw))) [0..<length ?sv])).
               link_source l \<in> ?ids \<and> link_target l \<in> ?ids"
    using hub chain attach unfolding set_append by blast
  then show ?thesis
    by (simp only: graphData_shape projectNodes_ids sum.inject GraphData.simps simp_thms ex_simps)
qed

theorem link_endpoints_are_nodes_witness:
  "example_devices \<noteq> []
   \<and> (\<exists>g. graphData example_icons (\<lambda>_. 0) example_devices = Inr g
          \<and> map node_id (nodes g) = [''gw'', ''s1'', ''s2'', ''srv1'']
          \<and> (\<forall>l \<in> set (links g).
                 link_source l \<in> {''gw'', ''s1'', ''s2'', ''srv1''}
                 \<and> link_target l \<in> {''gw'', ''s1'', ''s2'', ''srv1''}))"
  using link_endpoints_are_nodes [of example_devices example_icons "\<lambda>_. 0"]
  by (simp add: example_devices_def graphData_def Let_def targetSwitchOf_def)

section \<open>Node colour\<close>

text \<open>
  C8. \<^verbatim>\<open>getNodeColor\<close> returns a colour for every node. A node whose status is
  \<^verbatim>\<open>"offline"\<close> gets the alert colour \<^verbatim>\<open>#ef4444\<close> whatever its type. Any other node
  gets the colour its lower-cased type has in the palette (router, switch, server,
  access-point), and the grey \<^verbatim>\<open>#6b7280\<close> when the lower-cased type is not in the
  palette.
\<close>

theorem getNodeColor_cases:
  "(node_status node = ''offline'' \<longrightarrow> getNodeColor node = ''#ef4444'')
   \<and> (node_status node \<noteq> ''offline'' \<longrightarrow>
        getNodeColor node =
          (case map_of [(''router'', ''#3b82f6''), (''switch'', ''#10b981''),
                        (''server'', ''#8b5cf6''), (''access-point'', ''#3b82f6'')]
                       (toLowerCase (node_type node)) of
             Some color \<Rightarrow> color
           | None \<Rightarrow> ''#6b7280''))
   \<and> (node_status node \<noteq> ''offline''
        \<and> toLowerCase (node_type node) \<notin> {''router'', ''switch'', ''server'', ''access-point''} \<longrightarrow>
        getNodeColor node = ''#6b7280'')"
  by (simp add: getNodeColor_def Let_def)

theorem getNodeColor_cases_witness:
  "node_status (example_node ''switch'' ''offline'') = ''offline''
   \<and> getNodeColor (example_node ''switch'' ''offline'') = ''#ef4444''
   \<and> node_status (example_node ''Router'' ''online'') \<noteq> ''offline''
   \<and> getNodeColor (example_node ''Router'' ''online'') = ''#3b82f6''
   \<and> toLowerCase (node_type (example_node ''printer'' ''online''))
       \<notin> {''router'', ''switch'', ''server'', ''access-point''}
   \<and> getNodeColor (example_node ''printer'' ''online'') = ''#6b7280''"
  using getNodeColor_cases [of "example_node ''switch'' ''offline''"]
    getNodeColor_cases [of "example_node ''Router'' ''online''"]
    getNodeColor_cases [of "example_node ''printer'' ''online''"]
  by (simp add: example_node_def toLowerCase_literals)

section \<open>Order of the output\<close>

text \<open>
  C9. For every device list the synthesizer returns a graph whose nodes are the
  projections of the devices in input order, and whose link list is the links of the
  hub loop, then those of the switch loop, then those of the server loop.
\<close>

theorem output_order:
  "let switches = filter (\<lambda>d. device_type d = ''switch'') devices;
       servers = filter (\<lambda>d. device_type d = ''server'') devices
   in \<exists>g H S. graphData iconDictionary rnd devices = Inr g
        \<and> map (\<lambda>n. (node_id n, node_name n, node_type n, node_status n)) (nodes g)
          = map (\<lambda>d. (device_id d, device_name d, device_type d, device_status d)) devices
        \<and> hubEdges (element_at devices 0) (drop 1 devices) [] = Inr H
        \<and> switchChain switches 0 switches [] = Inr S
        \<and> links g = H @ S @ serverAttach switches 0 servers []"
  using hubEdges_call [of devices "[]"] switchChain_index [of "switchesOf devices" "[]"]
    serverAttach_index [of "switchesOf devices" "serversOf devices" "[]"]
  by (simp add: Let_def graphData_shape projectNodes_core)

theorem output_order_witness:
  "\<exists>g. graphData example_icons (\<lambda>_. 0) example_devices = Inr g
       \<and> map node_id (nodes g) = [''gw'', ''s1'', ''s2'', ''srv1'']
       \<and> links g =
           [\<lparr>link_source = ''gw'', link_target = ''s1'',
             link_type = ''straight'', link_animated = True\<rparr>,
            \<lparr>link_source = ''gw'', link_target = ''s2'',
             link_type = ''straight'', link_animated = False\<rparr>,
            \<lparr>link_source = ''gw'', link_target = ''srv1'',
             link_type = ''straight'', link_animated = True\<rparr>,
            \<lparr>link_source = ''s1'', link_target = ''s2'',
             link_type = ''straight'', link_animated = False\<rparr>,
            \<lparr>link_source = ''srv1'', link_target = ''s1'',
             link_type = ''straight'', link_animated = True\<rparr>]"
  using output_order [of example_devices example_icons "\<lambda>_. 0"]
  by (simp add: example_devices_def graphData_def Let_def targetSwitchOf_def)

section \<open>Letter case of the type\<close>

text \<open>
  C10. Let \<open>t\<close> differ from \<^verbatim>\<open>"switch"\<close> or \<^verbatim>\<open>"server"\<close> (called \<open>lit\<close>) by letter
  case only: \<open>t\<close> is not \<open>lit\<close> and lower-cases to it. Then the icon of \<open>t\<close> is the
  icon of \<open>lit\<close>, and a node of type \<open>t\<close> has the colour of the same node with type
  \<open>lit\<close>. But a device \<open>d\<close> of type \<open>t\<close> passes neither filter: the switches and the
  servers of a list are the same with and without \<open>d\<close>, and so are the links that
  follow the hub links in the output.
\<close>

theorem case_variant_types:
  assumes "lit = ''switch'' \<or> lit = ''server''"
    and "toLowerCase t = lit" and "t \<noteq> lit"
    and "device_type d = t"
  shows "getDeviceIcon iconDictionary t = getDeviceIcon iconDictionary lit
       \<and> getNodeColor (node\<lparr>node_type := t\<rparr>) = getNodeColor (node\<lparr>node_type := lit\<rparr>)
       \<and> filter (\<lambda>d. device_type d = ''switch'') (xs @ d # ys)
           = filter (\<lambda>d. device_type d = ''switch'') (xs @ ys)
       \<and> filter (\<lambda>d. device_type d = ''server'') (xs @ d # ys)
           = filter (\<lambda>d. device_type d = ''server'') (xs @ ys)
       \<and> (\<exists>g g'. graphData iconDictionary rnd (xs @ d # ys) = Inr g
                \<and> graphData iconDictionary rnd' (xs @ ys) = Inr g'
                \<and> drop (length (xs @ d # ys) - 1) (links g)
                    = drop (length (xs @ ys) - 1) (links g'))"
proof -
  from assms(1,2) have low: "toLowerCase lit = toLowerCase t"
    by (auto simp add: toLowerCase_literals)
  from assms have nsw: "device_type d \<noteq> ''switch''" and nsv: "device_type d \<noteq> ''server''"
    by (auto simp add: toLowerCase_literals)
  have icon: "getDeviceIcon iconDictionary t = getDeviceIcon iconDictionary lit"
    by (simp add: getDeviceIcon_def low)
  have color: "getNodeColor (node\<lparr>node_type := t\<rparr>) = getNodeColor (node\<lparr>node_type := lit\<rparr>)"
    by (simp add: getNodeColor_def low)
  have sw: "switchesOf (xs @ d # ys) = switchesOf (xs @ ys)"
    using nsw by simp
  have sv: "serversOf (xs @ d # ys) = serversOf (xs @ ys)"
    using nsv by simp
  from graphData_after_hub [of iconDictionary rnd "xs @ d # ys"]
    graphData_after_hub [of iconDictionary rnd' "xs @ ys"]
  have "\<exists>g g'. graphData iconDictionary rnd (xs @ d # ys) = Inr g
                \<and> graphData iconDictionary rnd' (xs @ ys) = Inr g'
                \<and> drop (length (xs @ d # ys) - 1) (links g)
                    = drop (length (xs @ ys) - 1) (links g')"
    unfolding sw sv by metis
  with icon color sw sv show ?thesis by blast
qed

theorem case_variant_types_witness:
  "toLowerCase ''Switch'' = ''switch'' \<and> ''Switch'' \<noteq> ''switch''
   \<and> getDeviceIcon example_icons ''Switch'' = Some (Element ''SwitchIcon'')
   \<and> getNodeColor (example_node ''Switch'' ''online'') = ''#10b981''
   \<and> filter (\<lambda>d. device_type d = ''switch'')
        (example_devices @ [\<lparr>device_id = ''s3'', device_name = ''Switch 3'',
                              device_type = ''Switch'', device_status = ''online''\<rparr>])
       = filter (\<lambda>d. device_type d = ''switch'') example_devices
   \<and> (\<exists>g. graphData example_icons (\<lambda>_. 0)
             (example_devices @ [\<lparr>device_id = ''s3'', device_name = ''Switch 3'',
                                   device_type = ''Switch'', device_status = ''online''\<rparr>]) = Inr g
          \<and> drop 4 (links g) =
              [\<lparr>link_source = ''s1'', link_target = ''s2'',
                link_type = ''straight'', link_animated = False\<rparr>,
               \<lparr>link_source = ''srv1'', link_target = ''s1'',
                link_type = ''straight'', link_animated = True\<rparr>])"
  using case_variant_types [of "''switch''" "''Switch''"
      "\<lparr>device_id = ''s3'', device_name = ''Switch 3'',
        device_type = ''Switch'', device_status = ''online''\<rparr>"
      example_icons "example_node ''Switch'' ''online''" example_devices "[]"
      "\<lambda>_. 0" "\<lambda>_. 0"]
  by (simp add: example_devices_def example_icons_def example_node_def graphData_def Let_def
      targetSwitchOf_def getDeviceIcon_def getNodeColor_def toLowerCase_literals)

end
